theory Spec2Isabelle
  imports Main "HOL-Library.Word"
begin

unbundle bit_operations_syntax

section \<open>Memory, pointers and undefined behaviour\<close>

text \<open>
  The file \<^verbatim>\<open>src/tun/src/ffi.c\<close> holds two C functions, \<^verbatim>\<open>strscpy_pad\<close> and
  \<^verbatim>\<open>tun_alloc\<close>. A C object of type \<^verbatim>\<open>char[]\<close> is a \<open>string\<close> (a list of
  \<open>char\<close>, one per byte) whose length is the capacity of the object; the byte the C code
  compares with \<^verbatim>\<open>0\<close> is \<open>NUL\<close>. The destination and the source of a copy are two distinct
  objects, as they are at the only call site (a field of a local \<^verbatim>\<open>struct ifreq\<close> and the
  caller's buffer).

  A read or a store through a pointer that lies outside its object, and the decrement of an
  \<^verbatim>\<open>int\<close> that already holds \<^verbatim>\<open>INT_MIN\<close>, are undefined behaviour in C. The model stops
  there with a \<open>fault\<close> instead of inventing a value.
\<close>

definition NUL :: char where
  "NUL = CHR 0x00"

definition INT_MIN :: int where
  "INT_MIN = - (2 ^ 31)"

datatype fault = DstOutOfBounds | SrcOutOfBounds | BadPointer | SignedOverflow

text \<open>
  The local pointer variable \<^verbatim>\<open>dst\<close> either points into the destination object, at an
  offset, or holds an address made from an integer constant (\<^verbatim>\<open>dst = 0\<close>).
\<close>

datatype ptr = Obj nat | Addr nat

fun ptr_inc :: "ptr \<Rightarrow> ptr" where
  "ptr_inc (Obj n) = Obj (n + 1)"
| "ptr_inc (Addr n) = Addr (n + 1)"

section \<open>\<^verbatim>\<open>strscpy_pad\<close>\<close>

text \<open>
  The variables of one activation of \<^verbatim>\<open>strscpy_pad\<close>: the destination object \<open>dobj\<close>, the
  two pointers (the source pointer as an offset into the source object, which is never
  written), the parameter \<^verbatim>\<open>size\<close>, and a log of the offsets of the destination object that
  were stored to, oldest first.
\<close>

record frame =
  dobj :: string
  dst :: ptr
  src :: nat
  size' :: int
  stores :: "nat list"

text \<open>
  First loop (lines 15 to 21):
  \<^verbatim>\<open>while (*dst != 0 && size != 0) { *dst = *src; src++; dst++; size--; }\<close>
  The guard reads \<^verbatim>\<open>*dst\<close> before it looks at \<^verbatim>\<open>size\<close>.
\<close>

function copy_loop :: "string \<Rightarrow> frame \<Rightarrow> frame \<times> fault option" where
  "copy_loop sobj f =
     (case dst f of
        Addr a \<Rightarrow> (f, Some BadPointer)
      | Obj d \<Rightarrow>
          if length (dobj f) \<le> d then (f, Some DstOutOfBounds)
          else if dobj f ! d \<noteq> NUL \<and> size' f \<noteq> 0 then
            (if length sobj \<le> src f then (f, Some SrcOutOfBounds)
             else
               let f1 = f\<lparr>dobj := (dobj f)[d := sobj ! src f], stores := stores f @ [d]\<rparr>;
                   f2 = f1\<lparr>src := src f1 + 1\<rparr>;
                   f3 = f2\<lparr>dst := ptr_inc (dst f2)\<rparr>
               in if size' f3 \<le> INT_MIN then (f3, Some SignedOverflow)
                  else copy_loop sobj (f3\<lparr>size' := size' f3 - 1\<rparr>))
          else (f, None))"
  by pat_completeness auto
termination
  by (relation "measure (\<lambda>(sobj, f). case dst f of Obj d \<Rightarrow> length (dobj f) - d | Addr a \<Rightarrow> 0)")
    auto

text \<open>
  Second loop (lines 23 to 28):
  \<^verbatim>\<open>while (size != 0) { dst = 0; dst++; size--; }\<close>
  The body assigns to the pointer variable; it contains no store through the pointer.
\<close>

function pad_loop :: "frame \<Rightarrow> frame \<times> fault option" where
  "pad_loop f =
     (if size' f \<noteq> 0 then
        let f1 = f\<lparr>dst := Addr 0\<rparr>;
            f2 = f1\<lparr>dst := ptr_inc (dst f1)\<rparr>
        in if size' f2 \<le> INT_MIN then (f2, Some SignedOverflow)
           else pad_loop (f2\<lparr>size' := size' f2 - 1\<rparr>)
      else (f, None))"
  by pat_completeness auto
termination
  by (relation "measure (\<lambda>f. nat (size' f - INT_MIN))") (auto simp: INT_MIN_def)

text \<open>
  What a call leaves behind: the destination object, the log of stores, and either the
  returned \<^verbatim>\<open>int\<close> or the fault at which the execution stopped being defined.
\<close>

record sp_result =
  buf :: string
  stored :: "nat list"
  retval :: "fault + int"

definition strscpy_pad :: "string \<Rightarrow> string \<Rightarrow> int \<Rightarrow> sp_result" where
  "strscpy_pad d s n =
     (let written = n;
          f0 = \<lparr>dobj = d, dst = Obj 0, src = 0, size' = n, stores = []\<rparr>
      in (case copy_loop s f0 of
            (f1, Some e) \<Rightarrow> \<lparr>buf = dobj f1, stored = stores f1, retval = Inl e\<rparr>
          | (f1, None) \<Rightarrow>
              (let written = written - size' f1
               in (case pad_loop f1 of
                     (f2, Some e) \<Rightarrow> \<lparr>buf = dobj f2, stored = stores f2, retval = Inl e\<rparr>
                   | (f2, None) \<Rightarrow>
                       (let f3 = f2\<lparr>dst := Addr 0\<rparr>
                        in \<lparr>buf = dobj f3, stored = stores f3, retval = Inr written\<rparr>)))))"

section \<open>\<^verbatim>\<open>tun_alloc\<close>\<close>

subsection \<open>Constants and structures of the system headers\<close>

text \<open>
  The values are those of the Linux headers the source includes
  (\<^verbatim>\<open>linux/if.h\<close>, \<^verbatim>\<open>linux/if_tun.h\<close>, \<^verbatim>\<open>net/route.h\<close>, \<^verbatim>\<open>fcntl.h\<close>,
  \<^verbatim>\<open>sys/socket.h\<close>).
\<close>

definition IFNAMSIZ :: nat where "IFNAMSIZ = 16"
definition IFF_TUN :: "16 word" where "IFF_TUN = 0x0001"
definition IFF_TAP :: "16 word" where "IFF_TAP = 0x0002"
definition IFF_NO_PI :: "16 word" where "IFF_NO_PI = 0x1000"
definition IFF_UP :: "16 word" where "IFF_UP = 0x0001"
definition IFF_RUNNING :: "16 word" where "IFF_RUNNING = 0x0040"
definition RTF_UP :: "16 word" where "RTF_UP = 0x0001"
definition RTF_STATIC :: "16 word" where "RTF_STATIC = 0x0400"
definition AF_INET :: "16 word" where "AF_INET = 2"
definition SOCK_DGRAM :: int where "SOCK_DGRAM = 2"
definition O_RDWR :: int where "O_RDWR = 2"

record sockaddr_in =
  sin_family :: "16 word"
  sin_port :: "16 word"
  sin_addr :: "32 word"

text \<open>
  In \<^verbatim>\<open>struct ifreq\<close> the flags, the address and the destination address are members of
  one union: the value is the member written last.
\<close>

datatype ifr_ifru = Ifru_flags "16 word" | Ifru_addr sockaddr_in | Ifru_dstaddr sockaddr_in

record ifreq =
  ifr_name :: string
  ifr_ifru :: ifr_ifru

record rtentry =
  rt_dst :: sockaddr_in
  rt_genmask :: sockaddr_in
  rt_flags :: "16 word"
  rt_metric :: int
  rt_dev :: string

subsection \<open>The calls into the kernel and the C library\<close>

datatype request =
  TUNSETIFF | SIOCSIFADDR | SIOCSIFDSTADDR | SIOCGIFFLAGS | SIOCSIFFLAGS | SIOCADDRT

datatype ioctl_arg = Ifreq ifreq | Rtentry rtentry

text \<open>
  One event per call the function makes, in the order of the calls, with the arguments as
  submitted and the value the call returned. \<open>Printf\<close> carries the fixed part of the
  diagnostic line.
\<close>

datatype event =
    Open string int int
  | Ioctl int request ioctl_arg int
  | Socket "16 word" int int int
  | Close int
  | Printf string

text \<open>
  The answers of the environment to one call of \<^verbatim>\<open>tun_alloc\<close>: the value each system call
  returns if it is reached, what \<^verbatim>\<open>TUNSETIFF\<close> and \<^verbatim>\<open>SIOCGIFFLAGS\<close> write back into the
  request, and the library's \<^verbatim>\<open>inet_addr\<close>.
\<close>

record env =
  open_ret :: int
  tunsetiff_ret :: int
  tunsetiff_name :: string
  socket_ret :: int
  sifaddr_ret :: int
  sifdstaddr_ret :: int
  gifflags_ret :: int
  gifflags_flags :: "16 word"
  sifflags_ret :: int
  addrt_ret :: int
  inet_addr :: "string \<Rightarrow> 32 word"

text \<open>
  \<^verbatim>\<open>strcpy\<close> of the C library: copies the source up to and including its terminator. It is
  undefined when the source object holds no terminator or the destination object is too
  small.
\<close>

definition strcpy :: "string \<Rightarrow> string \<Rightarrow> fault + string" where
  "strcpy d s =
     (let n = length (takeWhile (\<lambda>c. c \<noteq> NUL) s)
      in if length s \<le> n then Inl SrcOutOfBounds
         else if length d < n + 1 then Inl DstOutOfBounds
         else Inr (take (n + 1) s @ drop (n + 1) d))"

subsection \<open>The function\<close>

text \<open>
  The result of a call: the returned \<^verbatim>\<open>int\<close> (or the fault), the calls made, and the
  contents of the caller's buffer \<^verbatim>\<open>dev\<close> afterwards.
\<close>

record call =
  ret :: "fault + int"
  trace :: "event list"
  dev_out :: string

definition tun_alloc :: "env \<Rightarrow> string \<Rightarrow> string \<Rightarrow> string \<Rightarrow> call" where
  "tun_alloc k dev self_ip peer_ip =
     (let fd = open_ret k;
          t = [Open ''/dev/net/tun'' O_RDWR fd]
      in if fd < 0 then \<lparr>ret = Inr (- 1), trace = t, dev_out = dev\<rparr>
      else
        let ifr = \<lparr>ifr_name = replicate IFNAMSIZ NUL, ifr_ifru = Ifru_flags 0\<rparr>;
            ifr = ifr\<lparr>ifr_ifru := Ifru_flags IFF_TUN\<rparr>
        in if dev = [] then \<lparr>ret = Inl SrcOutOfBounds, trace = t, dev_out = dev\<rparr>
        else
          (case (if dev ! 0 \<noteq> NUL
                 then (let c = strscpy_pad (ifr_name ifr) dev (int IFNAMSIZ)
                       in (case retval c of
                             Inl e \<Rightarrow> Inl e
                           | Inr w \<Rightarrow> Inr (ifr\<lparr>ifr_name := buf c\<rparr>)))
                 else Inr ifr) of
             Inl e \<Rightarrow> \<lparr>ret = Inl e, trace = t, dev_out = dev\<rparr>
           | Inr ifr \<Rightarrow>
        let err = tunsetiff_ret k;
            t = t @ [Ioctl fd TUNSETIFF (Ifreq ifr) err]
        in if err < 0
           then \<lparr>ret = Inr err, trace = t @ [Printf ''ioctl failed'', Close fd], dev_out = dev\<rparr>
        else
          let ifr = ifr\<lparr>ifr_name := tunsetiff_name k\<rparr>
          in (case strcpy dev (ifr_name ifr) of
                Inl e \<Rightarrow> \<lparr>ret = Inl e, trace = t, dev_out = dev\<rparr>
              | Inr dev \<Rightarrow>
        let sock = socket_ret k;
            t = t @ [Socket AF_INET SOCK_DGRAM 0 sock]
        in if sock < 0
           then \<lparr>ret = Inr sock, trace = t @ [Printf ''opening socket failed'', Close fd],
                 dev_out = dev\<rparr>
        else
          let sai = \<lparr>sin_family = 0, sin_port = 0, sin_addr = 0\<rparr>;
              sai = sai\<lparr>sin_family := AF_INET\<rparr>;
              sai = sai\<lparr>sin_port := 0\<rparr>;
              sai = sai\<lparr>sin_addr := inet_addr k self_ip\<rparr>;
              ifr = ifr\<lparr>ifr_ifru := Ifru_addr sai\<rparr>;
              err = sifaddr_ret k;
              t = t @ [Ioctl sock SIOCSIFADDR (Ifreq ifr) err]
          in if err < 0
             then \<lparr>ret = Inr err,
                   trace = t @ [Printf ''setting ip address failed'', Close fd, Close sock],
                   dev_out = dev\<rparr>
        else
          let sai = sai\<lparr>sin_addr := inet_addr k peer_ip\<rparr>;
              ifr = ifr\<lparr>ifr_ifru := Ifru_dstaddr sai\<rparr>;
              err = sifdstaddr_ret k;
              t = t @ [Ioctl sock SIOCSIFDSTADDR (Ifreq ifr) err]
          in if err < 0
             then \<lparr>ret = Inr err,
                   trace = t @ [Printf ''setting peer address failed'', Close fd, Close sock],
                   dev_out = dev\<rparr>
        else
          let err = gifflags_ret k;
              t = t @ [Ioctl sock SIOCGIFFLAGS (Ifreq ifr) err]
          in if err < 0
             then \<lparr>ret = Inr err,
                   trace = t @ [Printf ''getting flags failed'', Close fd, Close sock],
                   dev_out = dev\<rparr>
        else
          let ifr = ifr\<lparr>ifr_ifru := Ifru_flags (gifflags_flags k)\<rparr>;
              ifr = ifr\<lparr>ifr_ifru := Ifru_flags (gifflags_flags k OR (IFF_UP OR IFF_RUNNING))\<rparr>;
              err = sifflags_ret k;
              t = t @ [Ioctl sock SIOCSIFFLAGS (Ifreq ifr) err]
          in if err < 0
             then \<lparr>ret = Inr err,
                   trace = t @ [Printf ''setting flags failed'', Close fd, Close sock],
                   dev_out = dev\<rparr>
        else
          let zsa = \<lparr>sin_family = 0, sin_port = 0, sin_addr = 0\<rparr>;
              rt = \<lparr>rt_dst = zsa, rt_genmask = zsa, rt_flags = 0, rt_metric = 0, rt_dev = []\<rparr>;
              rt = rt\<lparr>rt_dst := (rt_dst rt)\<lparr>sin_family := AF_INET\<rparr>\<rparr>;
              rt = rt\<lparr>rt_dst := (rt_dst rt)\<lparr>sin_addr := inet_addr k peer_ip\<rparr>\<rparr>;
              rt = rt\<lparr>rt_genmask := (rt_genmask rt)\<lparr>sin_family := AF_INET\<rparr>\<rparr>;
              rt = rt\<lparr>rt_genmask :=
                     (rt_genmask rt)\<lparr>sin_addr := inet_addr k ''255.255.255.255''\<rparr>\<rparr>;
              rt = rt\<lparr>rt_flags := RTF_UP OR RTF_STATIC\<rparr>;
              rt = rt\<lparr>rt_metric := 0\<rparr>;
              rt = rt\<lparr>rt_dev := dev\<rparr>;
              err = addrt_ret k;
              t = t @ [Ioctl sock SIOCADDRT (Rtentry rt) err]
          in if err < 0
             then \<lparr>ret = Inr err,
                   trace = t @ [Printf ''adding route failed'', Close sock, Close fd],
                   dev_out = dev\<rparr>
        else
          \<lparr>ret = Inr fd, trace = t @ [Close sock], dev_out = dev\<rparr>)))"

section \<open>Observations on an execution\<close>

text \<open>
  The handles that are open after a sequence of calls: a successful \<^verbatim>\<open>open\<close> or
  \<^verbatim>\<open>socket\<close> adds the descriptor it returned, \<^verbatim>\<open>close\<close> removes its argument.
\<close>

fun handles_step :: "int set \<Rightarrow> event \<Rightarrow> int set" where
  "handles_step H (Open p fl r) = (if 0 \<le> r then insert r H else H)"
| "handles_step H (Socket d ty pr r) = (if 0 \<le> r then insert r H else H)"
| "handles_step H (Close h) = H - {h}"
| "handles_step H (Ioctl h rq a r) = H"
| "handles_step H (Printf s) = H"

definition open_handles :: "event list \<Rightarrow> int set" where
  "open_handles t = foldl handles_step {} t"

text \<open>The descriptors passed to \<^verbatim>\<open>close\<close>, in the order of the calls.\<close>

fun closes :: "event list \<Rightarrow> int list" where
  "closes [] = []"
| "closes (Close h # t) = h # closes t"
| "closes (e # t) = closes t"

text \<open>
  The kernel operations of the configuration sequence, each with the value it returned;
  \<^verbatim>\<open>close\<close> and \<^verbatim>\<open>printf\<close> are not among them.
\<close>

datatype kop = OpOpen | OpSocket | OpIoctl request

fun kernel_ops :: "event list \<Rightarrow> (kop \<times> int) list" where
  "kernel_ops [] = []"
| "kernel_ops (Open p fl r # t) = (OpOpen, r) # kernel_ops t"
| "kernel_ops (Socket d ty pr r # t) = (OpSocket, r) # kernel_ops t"
| "kernel_ops (Ioctl h rq a r # t) = (OpIoctl rq, r) # kernel_ops t"
| "kernel_ops (e # t) = kernel_ops t"

text \<open>The order of the steps in the source, and the answers of the environment in that order.\<close>

definition step_order :: "kop list" where
  "step_order = [OpOpen, OpIoctl TUNSETIFF, OpSocket, OpIoctl SIOCSIFADDR,
     OpIoctl SIOCSIFDSTADDR, OpIoctl SIOCGIFFLAGS, OpIoctl SIOCSIFFLAGS, OpIoctl SIOCADDRT]"

definition answers :: "env \<Rightarrow> int list" where
  "answers k = [open_ret k, tunsetiff_ret k, socket_ret k, sifaddr_ret k,
     sifdstaddr_ret k, gifflags_ret k, sifflags_ret k, addrt_ret k]"

text \<open>No operation follows one that returned a negative value.\<close>

fun stops_at_failure :: "int list \<Rightarrow> bool" where
  "stops_at_failure [] = True"
| "stops_at_failure [r] = True"
| "stops_at_failure (r # rs) = (0 \<le> r \<and> stops_at_failure rs)"

text \<open>The interface requests submitted with \<^verbatim>\<open>TUNSETIFF\<close>.\<close>

fun tunsetiff_reqs :: "event list \<Rightarrow> ifreq list" where
  "tunsetiff_reqs [] = []"
| "tunsetiff_reqs (Ioctl h TUNSETIFF (Ifreq r) v # t) = r # tunsetiff_reqs t"
| "tunsetiff_reqs (e # t) = tunsetiff_reqs t"

text \<open>
  What the caller owes the function for its memory accesses to be defined: \<^verbatim>\<open>dev\<close> points
  to at least one byte, and the name the kernel writes back is terminated inside the name
  field and fits, with its terminator, into the caller's buffer. Nothing is owed when
  \<^verbatim>\<open>open\<close> fails, and the second part only when \<^verbatim>\<open>TUNSETIFF\<close> succeeds.
\<close>

definition fits :: "string \<Rightarrow> string \<Rightarrow> bool" where
  "fits d s =
     (let n = length (takeWhile (\<lambda>c. c \<noteq> NUL) s) in n < length s \<and> n < length d)"

definition mem_ok :: "env \<Rightarrow> string \<Rightarrow> bool" where
  "mem_ok k dev =
     (0 \<le> open_ret k \<longrightarrow>
        dev \<noteq> [] \<and> (0 \<le> tunsetiff_ret k \<longrightarrow> fits dev (tunsetiff_name k)))"

subsection \<open>A concrete environment\<close>

text \<open>
  An environment in which every call succeeds: \<^verbatim>\<open>open\<close> returns descriptor 3, the kernel
  names the interface \<^verbatim>\<open>tun0\<close>, \<^verbatim>\<open>socket\<close> returns descriptor 4. The caller asks for the
  name \<^verbatim>\<open>mytun\<close> in a buffer of \<^verbatim>\<open>IFNAMSIZ\<close> bytes. Addresses are in network byte order.
\<close>

definition env_ok :: env where
  "env_ok = \<lparr>open_ret = 3, tunsetiff_ret = 0, tunsetiff_name = ''tun0'' @ replicate 12 NUL,
     socket_ret = 4, sifaddr_ret = 0, sifdstaddr_ret = 0, gifflags_ret = 0,
     gifflags_flags = 0x1090, sifflags_ret = 0, addrt_ret = 0,
     inet_addr = (\<lambda>s. if s = ''10.0.0.1'' then 0x0100000A
                      else if s = ''10.0.0.2'' then 0x0200000A else 0xFFFFFFFF)\<rparr>"

definition dev_ex :: string where
  "dev_ex = ''mytun'' @ replicate 11 NUL"

section \<open>Properties of the two loops\<close>

declare copy_loop.simps [simp del] pad_loop.simps [simp del]

text \<open>With a non-negative \<^verbatim>\<open>size\<close> the second loop counts down to zero and faults nowhere.\<close>

lemma pad_loop_ok:
  "0 \<le> size' f \<Longrightarrow>
   pad_loop f = (if size' f = 0 then f else f\<lparr>dst := Addr 1, size' := 0\<rparr>, None)"
proof (induction f rule: pad_loop.induct)
  case (1 f)
  show ?case
  proof (cases "size' f = 0")
    case True
    then show ?thesis by (simp add: pad_loop.simps [of f])
  next
    case False
    with "1.prems" have pos: "0 < size' f" by simp
    then have nmin: "\<not> size' f \<le> INT_MIN" by (simp add: INT_MIN_def)
    have "pad_loop f = pad_loop (f\<lparr>dst := Addr 1, size' := size' f - 1\<rparr>)"
      using False nmin by (subst pad_loop.simps) (simp add: Let_def)
    also have "\<dots> = (if size' f - 1 = 0 then f\<lparr>dst := Addr 1, size' := size' f - 1\<rparr>
                       else f\<lparr>dst := Addr 1, size' := 0\<rparr>, None)"
      using "1.IH" [OF False refl refl] nmin pos by (simp add: Let_def)
    finally show ?thesis using False by auto
  qed
qed

text \<open>The second loop leaves the destination object and the log of stores as they are.\<close>

lemma pad_loop_frame:
  "dobj (fst (pad_loop f)) = dobj f \<and> stores (fst (pad_loop f)) = stores f"
proof (induction f rule: pad_loop.induct)
  case (1 f)
  show ?case
    using "1.IH" by (subst (1 2) pad_loop.simps) (simp add: Let_def)
qed


text \<open>
  The first loop, when no access leaves its object: it runs \<open>k\<close> times, where \<open>k\<close> is the
  length of the run of non-zero bytes the destination holds from \<open>d\<close> on, cut at \<^verbatim>\<open>size\<close>.
\<close>

lemma copy_loop_run:
  assumes "dst f = Obj d" and "0 \<le> size' f"
    and "k = min (length (takeWhile (\<lambda>c. c \<noteq> NUL) (drop d (dobj f)))) (nat (size' f))"
    and "d + k < length (dobj f)" and "src f + k \<le> length sobj"
  shows "copy_loop sobj f =
           (f\<lparr>dobj := take d (dobj f) @ take k (drop (src f) sobj) @ drop (d + k) (dobj f),
              dst := Obj (d + k), src := src f + k, size' := size' f - int k,
              stores := stores f @ [d..<d + k]\<rparr>, None)"
  using assms
proof (induction sobj f arbitrary: d k rule: copy_loop.induct)
  case (1 sobj f)
  let ?xs = "dobj f"
  let ?P = "\<lambda>c. c \<noteq> NUL"
  from "1.prems" have inb: "\<not> length ?xs \<le> d" by simp
  show ?case
  proof (cases "?xs ! d \<noteq> NUL \<and> size' f \<noteq> 0")
    case False
    have "takeWhile ?P (drop d ?xs) = [] \<or> nat (size' f) = 0"
      using False inb "1.prems"(2)
      by (auto simp: takeWhile_eq_Nil_iff hd_drop_conv_nth)
    then have k0: "k = 0" using "1.prems"(3) by auto
    show ?thesis
      using False inb "1.prems"(1) k0
      by (subst copy_loop.simps) auto
  next
    case True
    define f' where "f' = f\<lparr>dobj := ?xs[d := sobj ! src f], stores := stores f @ [d],
      src := src f + 1, dst := Obj (d + 1), size' := size' f - 1\<rparr>"
    from True "1.prems"(2) have pos: "0 < size' f" by simp
    then have nmin: "\<not> size' f \<le> INT_MIN" by (simp add: INT_MIN_def)
    have dlt: "d < length ?xs" using inb by simp
    have dr: "drop d ?xs = ?xs ! d # drop (Suc d) ?xs"
      using dlt by (rule Cons_nth_drop_Suc [symmetric])
    have tw: "takeWhile ?P (drop d ?xs) = ?xs ! d # takeWhile ?P (drop (Suc d) ?xs)"
      unfolding dr using True by simp
    have nn: "nat (size' f) = Suc (nat (size' f - 1))" using pos by simp
    define k' where "k' = min (length (takeWhile ?P (drop (Suc d) ?xs))) (nat (size' f - 1))"
    have k: "k = Suc k'"
      using "1.prems"(3) by (simp add: tw nn k'_def)
    have slt: "\<not> length sobj \<le> src f" using "1.prems"(5) k by simp
    have step: "copy_loop sobj f = copy_loop sobj f'"
      using "1.prems"(1) inb True slt nmin
      by (subst copy_loop.simps) (simp add: Let_def f'_def)
    have p1: "Suc (d + k') < length ?xs" using "1.prems"(4) k by simp
    have p2: "Suc (src f + k') \<le> length sobj" using "1.prems"(5) k by simp
    have p3: "1 \<le> size' f" using pos by simp
    have p4: "min (length (takeWhile ?P (drop (Suc d) ?xs))) (nat (size' f - 1)) = k'"
      by (simp add: k'_def)
    note ih0 = "1.IH" [OF "1.prems"(1) inb True slt refl refl refl, of "Suc d" k']
    have ih: "copy_loop sobj f' =
        (f'\<lparr>dobj := take (Suc d) (dobj f') @ take k' (drop (src f') sobj)
                     @ drop (Suc d + k') (dobj f'),
            dst := Obj (Suc d + k'), src := src f' + k', size' := size' f' - int k',
            stores := stores f' @ [Suc d..<Suc d + k']\<rparr>, None)"
      using ih0 nmin p1 p2 p3 p4 "1.prems"(1)
      by (simp add: f'_def)
    have t1: "take (Suc d) (?xs[d := sobj ! src f]) = take d ?xs @ [sobj ! src f]"
      using dlt by (simp add: take_Suc_conv_app_nth)
    have t2: "take (Suc k') (drop (src f) sobj)
                = sobj ! src f # take k' (drop (Suc (src f)) sobj)"
      using slt by (simp add: Cons_nth_drop_Suc [symmetric])
    have t3: "[d..<Suc (d + k')] = d # [Suc d..<Suc (d + k')]"
      by (simp add: upt_conv_Cons del: upt_Suc)
    show ?thesis
      unfolding step ih using dlt
      by (simp add: f'_def k t1 t2 t3 del: upt_Suc)
  qed
qed

text \<open>
  The first loop in any execution with a non-negative \<^verbatim>\<open>size\<close>, also one that ends in a
  fault: it stores to the \<open>k\<close> offsets from \<open>d\<close> on and to nothing else, and \<open>k\<close> is at most
  \<^verbatim>\<open>size\<close>.
\<close>

lemma copy_loop_any:
  assumes "dst f = Obj d" and "0 \<le> size' f"
  shows "\<exists>k ys. int k \<le> size' f \<and> length ys = k \<and> (0 < k \<longrightarrow> d + k \<le> length (dobj f)) \<and>
           stores (fst (copy_loop sobj f)) = stores f @ [d..<d + k] \<and>
           dobj (fst (copy_loop sobj f)) = take d (dobj f) @ ys @ drop (d + k) (dobj f)"
  using assms
proof (induction sobj f arbitrary: d rule: copy_loop.induct)
  case (1 sobj f)
  let ?xs = "dobj f"
  show ?case
  proof (cases "\<not> length ?xs \<le> d \<and> (?xs ! d \<noteq> NUL \<and> size' f \<noteq> 0) \<and> \<not> length sobj \<le> src f")
    case False
    then have "fst (copy_loop sobj f) = f"
      using "1.prems"(1) by (subst copy_loop.simps) auto
    then show ?thesis
      using "1.prems"(2) by (intro exI [of _ 0] exI [of _ "[]"]) auto
  next
    case True
    then have inb: "\<not> length ?xs \<le> d" and nz: "?xs ! d \<noteq> NUL \<and> size' f \<noteq> 0"
      and slt: "\<not> length sobj \<le> src f" by simp_all
    define f' where "f' = f\<lparr>dobj := ?xs[d := sobj ! src f], stores := stores f @ [d],
      src := src f + 1, dst := Obj (d + 1), size' := size' f - 1\<rparr>"
    from nz "1.prems"(2) have pos: "1 \<le> size' f" by simp
    then have nmin: "\<not> size' f \<le> INT_MIN" by (simp add: INT_MIN_def)
    have dlt: "d < length ?xs" using inb by simp
    have step: "copy_loop sobj f = copy_loop sobj f'"
      using "1.prems"(1) inb nz slt nmin
      by (subst copy_loop.simps) (simp add: Let_def f'_def)
    note ih0 = "1.IH" [OF "1.prems"(1) inb nz slt refl refl refl, of "Suc d"]
    have "\<exists>k ys. int k \<le> size' f' \<and> length ys = k
           \<and> (0 < k \<longrightarrow> Suc d + k \<le> length (dobj f')) \<and>
           stores (fst (copy_loop sobj f')) = stores f' @ [Suc d..<Suc d + k] \<and>
           dobj (fst (copy_loop sobj f'))
             = take (Suc d) (dobj f') @ ys @ drop (Suc d + k) (dobj f')"
      using ih0 nmin pos "1.prems"(1) by (simp add: f'_def)
    then obtain k ys where k: "int k \<le> size' f'" and ys: "length ys = k"
      and len: "0 < k \<longrightarrow> Suc d + k \<le> length (dobj f')"
      and st: "stores (fst (copy_loop sobj f')) = stores f' @ [Suc d..<Suc d + k]"
      and ob: "dobj (fst (copy_loop sobj f'))
                 = take (Suc d) (dobj f') @ ys @ drop (Suc d + k) (dobj f')"
      by blast
    have t1: "take (Suc d) (?xs[d := sobj ! src f]) = take d ?xs @ [sobj ! src f]"
      using dlt by (simp add: take_Suc_conv_app_nth)
    have t3: "[d..<d + Suc k] = d # [Suc d..<Suc d + k]"
      by (simp add: upt_conv_Cons del: upt_Suc)
    have "int (Suc k) \<le> size' f" using k by (simp add: f'_def)
    moreover have "length (sobj ! src f # ys) = Suc k" using ys by simp
    moreover have "d + Suc k \<le> length ?xs"
      using len dlt by (cases k) (simp_all add: f'_def)
    moreover have "stores (fst (copy_loop sobj f)) = stores f @ [d..<d + Suc k]"
      unfolding step st t3 by (simp add: f'_def)
    moreover have "dobj (fst (copy_loop sobj f)) =
        take d ?xs @ (sobj ! src f # ys) @ drop (d + Suc k) ?xs"
      unfolding step ob by (simp add: f'_def t1)
    ultimately show ?thesis by blast
  qed
qed



text \<open>On a destination that starts with a zero byte the first loop ends at its first test.\<close>

lemma copy_loop_zeroed:
  "copy_loop dev \<lparr>dobj = replicate IFNAMSIZ NUL, dst = Obj 0, src = 0, size' = int IFNAMSIZ,
                   stores = []\<rparr>
     = (\<lparr>dobj = replicate IFNAMSIZ NUL, dst = Obj 0, src = 0, size' = int IFNAMSIZ,
          stores = []\<rparr>, None)"
  by (subst copy_loop.simps) (simp add: IFNAMSIZ_def)

section \<open>Properties of \<^verbatim>\<open>strscpy_pad\<close>\<close>

text \<open>
  The whole function, when no access leaves its object: with \<open>k\<close> the length of the leading
  run of non-zero bytes of the destination, cut at \<^verbatim>\<open>size\<close>, the first \<open>k\<close> bytes of the
  source replace that run, the rest of the destination stays, and \<open>k\<close> is returned.
\<close>

lemma strscpy_pad_run:
  assumes "0 \<le> n" and "k = min (length (takeWhile (\<lambda>c. c \<noteq> NUL) d)) (nat n)"
    and "k < length d" and "k \<le> length s"
  shows "strscpy_pad d s n = \<lparr>buf = take k s @ drop k d, stored = [0..<k], retval = Inr (int k)\<rparr>"
proof -
  let ?f0 = "\<lparr>dobj = d, dst = Obj 0, src = 0, size' = n, stores = []\<rparr>"
  let ?f1 = "\<lparr>dobj = take k s @ drop k d, dst = Obj k, src = k, size' = n - int k,
              stores = [0..<k]\<rparr>"
  have c: "copy_loop s ?f0 = (?f1, None)"
    using copy_loop_run [of ?f0 0 k s] assms by simp
  have "0 \<le> size' ?f1" using assms(1,2) by simp
  from pad_loop_ok [OF this]
  have p: "pad_loop ?f1 = (if n - int k = 0 then ?f1 else ?f1\<lparr>dst := Addr 1, size' := 0\<rparr>, None)"
    by simp
  show ?thesis
    by (simp add: strscpy_pad_def c p Let_def)
qed

text \<open>Every execution with a non-negative \<^verbatim>\<open>size\<close>, defined or not.\<close>

lemma strscpy_pad_any:
  assumes "0 \<le> n"
  shows "\<exists>k ys. int k \<le> n \<and> length ys = k \<and> (0 < k \<longrightarrow> k \<le> length d) \<and>
           stored (strscpy_pad d s n) = [0..<k] \<and>
           buf (strscpy_pad d s n) = ys @ drop k d"
proof -
  let ?f0 = "\<lparr>dobj = d, dst = Obj 0, src = 0, size' = n, stores = []\<rparr>"
  obtain f1 e where c: "copy_loop s ?f0 = (f1, e)" by (cases "copy_loop s ?f0")
  obtain f2 e2 where p: "pad_loop f1 = (f2, e2)" by (cases "pad_loop f1")
  from pad_loop_frame [of f1] p have fr: "dobj f2 = dobj f1" "stores f2 = stores f1" by simp_all
  have sb: "stored (strscpy_pad d s n) = stores f1 \<and> buf (strscpy_pad d s n) = dobj f1"
    by (cases e; cases e2) (simp_all add: strscpy_pad_def c p fr Let_def)
  from copy_loop_any [of ?f0 0 s] assms c
  obtain k ys where "int k \<le> n" "length ys = k" "0 < k \<longrightarrow> k \<le> length d"
    "stores f1 = [0..<k]" "dobj f1 = ys @ drop k d"
    by auto
  with sb show ?thesis by auto
qed



text \<open>The call \<^verbatim>\<open>tun_alloc\<close> makes: a zeroed name field of \<^verbatim>\<open>IFNAMSIZ\<close> bytes.\<close>

lemma strscpy_pad_zeroed:
  "strscpy_pad (replicate IFNAMSIZ NUL) dev (int IFNAMSIZ) =
     \<lparr>buf = replicate IFNAMSIZ NUL, stored = [], retval = Inr 0\<rparr>"
  using strscpy_pad_run [of "int IFNAMSIZ" 0 "replicate IFNAMSIZ NUL" dev]
  by (simp add: IFNAMSIZ_def)



text \<open>
  In every execution the stores and the final contents of the destination are those of the
  first loop; this needs no assumption on \<^verbatim>\<open>size\<close>.
\<close>

lemma strscpy_pad_stored:
  "stored (strscpy_pad d s n)
     = stores (fst (copy_loop s \<lparr>dobj = d, dst = Obj 0, src = 0, size' = n, stores = []\<rparr>))
   \<and> buf (strscpy_pad d s n)
     = dobj (fst (copy_loop s \<lparr>dobj = d, dst = Obj 0, src = 0, size' = n, stores = []\<rparr>))"
proof -
  let ?f0 = "\<lparr>dobj = d, dst = Obj 0, src = 0, size' = n, stores = []\<rparr>"
  obtain f1 e where c: "copy_loop s ?f0 = (f1, e)" by (cases "copy_loop s ?f0")
  obtain f2 e2 where p: "pad_loop f1 = (f2, e2)" by (cases "pad_loop f1")
  from pad_loop_frame [of f1] p have fr: "dobj f2 = dobj f1" "stores f2 = stores f1" by simp_all
  show ?thesis
    by (cases e; cases e2) (simp_all add: strscpy_pad_def c p fr Let_def)
qed

text \<open>
  The first loop at \<^verbatim>\<open>size = -1\<close> on a destination that holds \<^verbatim>\<open>xx\<close>, a zero byte and
  five bytes \<^verbatim>\<open>y\<close>: \<^verbatim>\<open>size\<close> never becomes zero, so only the zero byte stops the loop.
\<close>

lemma copy_loop_minus_one:
  "copy_loop (''tun0'' @ [NUL])
     \<lparr>dobj = ''xx'' @ [NUL] @ ''yyyyy'', dst = Obj 0, src = 0, size' = - 1, stores = []\<rparr>
   = (\<lparr>dobj = ''tu'' @ [NUL] @ ''yyyyy'', dst = Obj 2, src = 2, size' = - 3, stores = [0, 1]\<rparr>,
      None)"
  by (simp add: copy_loop.simps NUL_def INT_MIN_def Let_def)

text \<open>
  Claim C9 says that for every call \<^verbatim>\<open>strscpy_pad(dst, src, size)\<close> on a destination of
  capacity at least \<^verbatim>\<open>size\<close> no store is at offset \<^verbatim>\<open>size\<close> or beyond. The parameter is
  an unguarded \<^verbatim>\<open>int\<close>. At \<^verbatim>\<open>size = -1\<close>, on a destination of 8 bytes that holds
  \<^verbatim>\<open>xx\<close>, a zero byte and five bytes \<^verbatim>\<open>y\<close>, lines 15 to 21 store at the offsets 0 and 1,
  both beyond \<^verbatim>\<open>size\<close>, and leave \<^verbatim>\<open>tu\<close> in the first two bytes.
\<close>

theorem strscpy_pad_stores_below_size_counterexample:
  "stored (strscpy_pad (''xx'' @ [NUL] @ ''yyyyy'') (''tun0'' @ [NUL]) (- 1)) = [0, 1]
   \<and> buf (strscpy_pad (''xx'' @ [NUL] @ ''yyyyy'') (''tun0'' @ [NUL]) (- 1))
       = ''tu'' @ [NUL] @ ''yyyyy''
   \<and> \<not> (\<forall>i \<in> set (stored (strscpy_pad (''xx'' @ [NUL] @ ''yyyyy'') (''tun0'' @ [NUL]) (- 1))).
           int i < - 1)"
proof -
  have s: "stored (strscpy_pad (''xx'' @ [NUL] @ ''yyyyy'') (''tun0'' @ [NUL]) (- 1)) = [0, 1]"
    and b: "buf (strscpy_pad (''xx'' @ [NUL] @ ''yyyyy'') (''tun0'' @ [NUL]) (- 1))
              = ''tu'' @ [NUL] @ ''yyyyy''"
    using strscpy_pad_stored [of "''xx'' @ [NUL] @ ''yyyyy''" "''tun0'' @ [NUL]" "- 1"]
    unfolding copy_loop_minus_one by simp_all
  show ?thesis unfolding s b by auto
qed

text \<open>
  Claim C9, amended. For every call \<^verbatim>\<open>strscpy_pad(dst, src, size)\<close> with \<open>0 \<le> size\<close>,
  also one that ends in a fault, every store to the destination object is at an offset
  below \<^verbatim>\<open>size\<close>; the object keeps its length and the bytes from offset \<^verbatim>\<open>size\<close> on keep
  their values.
\<close>

theorem strscpy_pad_stores_below_size:
  assumes "0 \<le> n"
  shows "(\<forall>i \<in> set (stored (strscpy_pad d s n)). int i < n) \<and>
         length (buf (strscpy_pad d s n)) = length d \<and>
         drop (nat n) (buf (strscpy_pad d s n)) = drop (nat n) d"
proof -
  from strscpy_pad_any [OF assms, of d s]
  obtain k ys where k: "int k \<le> n" and ys: "length ys = k"
    and len: "0 < k \<longrightarrow> k \<le> length d"
    and st: "stored (strscpy_pad d s n) = [0..<k]"
    and b: "buf (strscpy_pad d s n) = ys @ drop k d"
    by blast
  have "\<forall>i \<in> set (stored (strscpy_pad d s n)). int i < n" using st k by auto
  moreover have "length (buf (strscpy_pad d s n)) = length d"
    using b ys len by (cases k) auto
  moreover have "drop (nat n) (buf (strscpy_pad d s n)) = drop (nat n) d"
  proof -
    have kn: "k \<le> nat n" using k by linarith
    have "drop (nat n) (ys @ drop k d) = drop (nat n - k) (drop k d)"
      using ys kn by simp
    also have "\<dots> = drop (nat n) d" using kn by simp
    finally show ?thesis using b by simp
  qed
  ultimately show ?thesis by blast
qed

theorem strscpy_pad_stores_below_size_witness:
  "(0::int) \<le> 3
   \<and> stored (strscpy_pad (''xxxxx'' @ [NUL]) (''tun0'' @ [NUL]) 3) = [0, 1, 2]
   \<and> length (buf (strscpy_pad (''xxxxx'' @ [NUL]) (''tun0'' @ [NUL]) 3)) = 6
   \<and> drop 3 (buf (strscpy_pad (''xxxxx'' @ [NUL]) (''tun0'' @ [NUL]) 3)) = ''xx'' @ [NUL]"
proof -
  have e: "stored (strscpy_pad (''xxxxx'' @ [NUL]) (''tun0'' @ [NUL]) 3) = [0, 1, 2]"
    using strscpy_pad_run [of 3 3 "''xxxxx'' @ [NUL]" "''tun0'' @ [NUL]"]
    by (simp add: NUL_def upt_rec)
  have "(0::int) \<le> 3" by simp
  from strscpy_pad_stores_below_size [OF this, of "''xxxxx'' @ [NUL]" "''tun0'' @ [NUL]"]
  show ?thesis unfolding e by simp
qed

text \<open>
  Claim C4 asks that, for a source shorter than the capacity \<open>N\<close>, the destination holds the
  source bytes followed by zero bytes up to \<open>N\<close>, and that the number of copied bytes is
  returned. The function does not do that. At the call \<^verbatim>\<open>tun_alloc\<close> makes (a zeroed
  buffer of 16 bytes, the name \<^verbatim>\<open>tun0\<close>) it copies nothing and returns 0, where the claim
  gives \<^verbatim>\<open>tun0\<close> followed by twelve zero bytes and the value 4. On a buffer of 8 bytes
  that holds \<^verbatim>\<open>xx\<close>, a zero byte and five bytes \<^verbatim>\<open>y\<close> it copies two bytes, returns 2 and
  leaves the five bytes \<^verbatim>\<open>y\<close> in place, where the claim gives \<^verbatim>\<open>tun0\<close> followed by four
  zero bytes and the value 4.
\<close>

theorem strscpy_pad_does_not_copy_or_pad:
  "strscpy_pad (replicate 16 NUL) (''tun0'' @ [NUL]) 16 =
     \<lparr>buf = replicate 16 NUL, stored = [], retval = Inr 0\<rparr>
   \<and> strscpy_pad (''xx'' @ [NUL] @ ''yyyyy'') (''tun0'' @ [NUL]) 8 =
     \<lparr>buf = ''tu'' @ [NUL] @ ''yyyyy'', stored = [0, 1], retval = Inr 2\<rparr>"
proof
  show "strscpy_pad (replicate 16 NUL) (''tun0'' @ [NUL]) 16 =
     \<lparr>buf = replicate 16 NUL, stored = [], retval = Inr 0\<rparr>"
    using strscpy_pad_run [of 16 0 "replicate 16 NUL" "''tun0'' @ [NUL]"]
    by simp
  show "strscpy_pad (''xx'' @ [NUL] @ ''yyyyy'') (''tun0'' @ [NUL]) 8 =
     \<lparr>buf = ''tu'' @ [NUL] @ ''yyyyy'', stored = [0, 1], retval = Inr 2\<rparr>"
    using strscpy_pad_run [of 8 2 "''xx'' @ [NUL] @ ''yyyyy''" "''tun0'' @ [NUL]"]
    by (simp add: NUL_def upt_rec)
qed

section \<open>Properties of \<^verbatim>\<open>tun_alloc\<close>\<close>

text \<open>\<^verbatim>\<open>strcpy\<close> is defined exactly when the source fits.\<close>

lemma strcpy_fits:
  "fits d s \<Longrightarrow> strcpy d s = Inr (take (Suc (length (takeWhile (\<lambda>c. c \<noteq> NUL) s))) s
      @ drop (Suc (length (takeWhile (\<lambda>c. c \<noteq> NUL) s))) d)"
  by (auto simp: fits_def strcpy_def Let_def)

lemma strcpy_Inr_only: "strcpy d s = Inr d' \<Longrightarrow> fits d s"
  by (auto simp: fits_def strcpy_def Let_def split: if_splits)

lemma mem_ok_example: "mem_ok (env_ok\<lparr>sifaddr_ret := r\<rparr>) dev_ex"
  by (simp add: mem_ok_def env_ok_def dev_ex_def fits_def NUL_def)

lemmas tun_alloc_unfold = tun_alloc_def Let_def strscpy_pad_zeroed strcpy_fits

text \<open>
  The call returns a value exactly when the caller's buffer meets \<open>mem_ok\<close>; otherwise the
  execution is undefined at the read of \<^verbatim>\<open>*dev\<close> or in \<^verbatim>\<open>strcpy\<close>.
\<close>

lemma tun_alloc_returns_iff:
  "(\<exists>v. ret (tun_alloc k dev self_ip peer_ip) = Inr v) \<longleftrightarrow> mem_ok k dev"
proof
  assume "mem_ok k dev"
  then show "\<exists>v. ret (tun_alloc k dev self_ip peer_ip) = Inr v"
    by (simp add: mem_ok_def tun_alloc_def Let_def strscpy_pad_zeroed strcpy_fits)
next
  assume r: "\<exists>v. ret (tun_alloc k dev self_ip peer_ip) = Inr v"
  show "mem_ok k dev"
  proof (cases "0 \<le> open_ret k")
    case False
    then show ?thesis by (simp add: mem_ok_def)
  next
    case o: True
    have d: "dev \<noteq> []"
      using r o by (auto simp: tun_alloc_def Let_def)
    have "fits dev (tunsetiff_name k)" if t: "0 \<le> tunsetiff_ret k"
    proof (cases "strcpy dev (tunsetiff_name k)")
      case (Inl e)
      with r o d t show ?thesis
        by (cases "dev ! 0 = NUL") (simp_all add: tun_alloc_def Let_def strscpy_pad_zeroed)
    next
      case (Inr d')
      then show ?thesis by (rule strcpy_Inr_only)
    qed
    with d show ?thesis by (simp add: mem_ok_def)
  qed
qed

text \<open>
  The one \<^verbatim>\<open>TUNSETIFF\<close> request of a call that gets past \<^verbatim>\<open>open\<close>, whatever happens
  later.
\<close>

lemma tunsetiff_request:
  assumes "dev \<noteq> []" and "0 \<le> open_ret k"
  shows "tunsetiff_reqs (trace (tun_alloc k dev self_ip peer_ip)) =
           [\<lparr>ifr_name = replicate IFNAMSIZ NUL, ifr_ifru = Ifru_flags IFF_TUN\<rparr>]"
  using assms
  by (simp add: tun_alloc_def Let_def strscpy_pad_zeroed split: sum.split)

text \<open>
  Claim C1. In every execution of \<^verbatim>\<open>tun_alloc\<close> in which \<^verbatim>\<open>open\<close> succeeded and a later
  step fails (\<^verbatim>\<open>TUNSETIFF\<close>, \<^verbatim>\<open>socket\<close>, \<^verbatim>\<open>SIOCSIFADDR\<close>, \<^verbatim>\<open>SIOCSIFDSTADDR\<close>,
  \<^verbatim>\<open>SIOCGIFFLAGS\<close>, \<^verbatim>\<open>SIOCSIFFLAGS\<close> or \<^verbatim>\<open>SIOCADDRT\<close> returns a negative value), the
  function returns a negative value and no handle it opened is open at the return: the
  descriptors passed to \<^verbatim>\<open>close\<close> are the device descriptor and, when the socket was
  opened, the socket.
\<close>

theorem tun_alloc_failure_releases_handles:
  assumes "mem_ok k dev" and "0 \<le> open_ret k"
    and "tunsetiff_ret k < 0 \<or> socket_ret k < 0 \<or> sifaddr_ret k < 0 \<or> sifdstaddr_ret k < 0
       \<or> gifflags_ret k < 0 \<or> sifflags_ret k < 0 \<or> addrt_ret k < 0"
  shows "(\<exists>v. ret (tun_alloc k dev self_ip peer_ip) = Inr v \<and> v < 0)
       \<and> open_handles (trace (tun_alloc k dev self_ip peer_ip)) = {}
       \<and> set (closes (trace (tun_alloc k dev self_ip peer_ip))) =
           (if 0 \<le> tunsetiff_ret k \<and> 0 \<le> socket_ret k then {open_ret k, socket_ret k}
            else {open_ret k})"
proof (intro conjI)
  show "\<exists>v. ret (tun_alloc k dev self_ip peer_ip) = Inr v \<and> v < 0"
    using assms by (simp add: mem_ok_def tun_alloc_unfold) auto
  show "open_handles (trace (tun_alloc k dev self_ip peer_ip)) = {}"
    using assms by (simp add: mem_ok_def tun_alloc_unfold open_handles_def) blast
  show "set (closes (trace (tun_alloc k dev self_ip peer_ip))) =
           (if 0 \<le> tunsetiff_ret k \<and> 0 \<le> socket_ret k then {open_ret k, socket_ret k}
            else {open_ret k})"
    using assms by (simp add: mem_ok_def tun_alloc_unfold) auto
qed

theorem tun_alloc_failure_releases_handles_witness:
  "mem_ok (env_ok\<lparr>sifaddr_ret := - 1\<rparr>) dev_ex
   \<and> 0 \<le> open_ret (env_ok\<lparr>sifaddr_ret := - 1\<rparr>)
   \<and> sifaddr_ret (env_ok\<lparr>sifaddr_ret := - 1\<rparr>) < 0
   \<and> ret (tun_alloc (env_ok\<lparr>sifaddr_ret := - 1\<rparr>) dev_ex ''10.0.0.1'' ''10.0.0.2'') = Inr (- 1)
   \<and> open_handles (trace (tun_alloc (env_ok\<lparr>sifaddr_ret := - 1\<rparr>) dev_ex ''10.0.0.1'' ''10.0.0.2'')) = {}
   \<and> set (closes (trace (tun_alloc (env_ok\<lparr>sifaddr_ret := - 1\<rparr>) dev_ex ''10.0.0.1'' ''10.0.0.2''))) = {3, 4}"
proof -
  let ?k = "env_ok\<lparr>sifaddr_ret := - 1\<rparr>"
  have m: "mem_ok ?k dev_ex" by (rule mem_ok_example)
  have o: "0 \<le> open_ret ?k" by (simp add: env_ok_def)
  have f: "sifaddr_ret ?k < 0" by simp
  have r: "ret (tun_alloc ?k dev_ex ''10.0.0.1'' ''10.0.0.2'') = Inr (- 1)"
    using m by (simp add: mem_ok_def tun_alloc_unfold env_ok_def)
  from tun_alloc_failure_releases_handles [OF m o, of "''10.0.0.1''" "''10.0.0.2''"] f
  have "open_handles (trace (tun_alloc ?k dev_ex ''10.0.0.1'' ''10.0.0.2'')) = {}
      \<and> set (closes (trace (tun_alloc ?k dev_ex ''10.0.0.1'' ''10.0.0.2''))) = {3, 4}"
    by (simp add: env_ok_def)
  with m o f r show ?thesis by blast
qed

text \<open>
  Claim C2. In every call of \<^verbatim>\<open>tun_alloc\<close> with a non-empty requested name that gets past
  \<^verbatim>\<open>open\<close>, the name field is zeroed before the copy, so the copy loop of
  \<^verbatim>\<open>strscpy_pad\<close> ends at its first test: nothing is stored, 0 is returned, and the name
  submitted with \<^verbatim>\<open>TUNSETIFF\<close> is \<^verbatim>\<open>IFNAMSIZ\<close> zero bytes, whatever the caller asked for.
\<close>

theorem tun_alloc_requested_name_discarded:
  assumes "dev \<noteq> []" and "dev ! 0 \<noteq> NUL" and "0 \<le> open_ret k"
  shows "copy_loop dev \<lparr>dobj = replicate IFNAMSIZ NUL, dst = Obj 0, src = 0,
                         size' = int IFNAMSIZ, stores = []\<rparr>
           = (\<lparr>dobj = replicate IFNAMSIZ NUL, dst = Obj 0, src = 0,
                size' = int IFNAMSIZ, stores = []\<rparr>, None)
       \<and> strscpy_pad (replicate IFNAMSIZ NUL) dev (int IFNAMSIZ)
           = \<lparr>buf = replicate IFNAMSIZ NUL, stored = [], retval = Inr 0\<rparr>
       \<and> map ifr_name (tunsetiff_reqs (trace (tun_alloc k dev self_ip peer_ip)))
           = [replicate IFNAMSIZ NUL]"
  using tunsetiff_request [OF assms(1,3)] by (simp add: copy_loop_zeroed strscpy_pad_zeroed)

theorem tun_alloc_requested_name_discarded_witness:
  "dev_ex \<noteq> [] \<and> dev_ex ! 0 \<noteq> NUL \<and> 0 \<le> open_ret env_ok
   \<and> strscpy_pad (replicate IFNAMSIZ NUL) dev_ex (int IFNAMSIZ)
       = \<lparr>buf = replicate IFNAMSIZ NUL, stored = [], retval = Inr 0\<rparr>
   \<and> map ifr_name (tunsetiff_reqs (trace (tun_alloc env_ok dev_ex ''10.0.0.1'' ''10.0.0.2'')))
       = [replicate 16 NUL]"
  using tun_alloc_requested_name_discarded [of dev_ex env_ok "''10.0.0.1''" "''10.0.0.2''"]
  by (simp add: env_ok_def dev_ex_def NUL_def IFNAMSIZ_def)

text \<open>
  Claim C3 says that the flags submitted with \<^verbatim>\<open>TUNSETIFF\<close> are
  \<^verbatim>\<open>IFF_TUN | IFF_NO_PI\<close>. The source assigns \<^verbatim>\<open>IFF_TUN\<close> alone (line 52); the comment
  above the assignment lists the flags that exist. In the example environment the submitted
  flags differ from \<^verbatim>\<open>IFF_TUN | IFF_NO_PI\<close>.
\<close>

theorem tun_alloc_request_flags_counterexample:
  "map ifr_ifru (tunsetiff_reqs (trace (tun_alloc env_ok dev_ex ''10.0.0.1'' ''10.0.0.2'')))
     \<noteq> [Ifru_flags (IFF_TUN OR IFF_NO_PI)]"
proof -
  have "dev_ex \<noteq> []" "0 \<le> open_ret env_ok" by (simp_all add: dev_ex_def env_ok_def)
  from tunsetiff_request [OF this] show ?thesis
    by (simp add: IFF_TUN_def IFF_NO_PI_def)
qed

text \<open>
  Claim C3, amended. In every call of \<^verbatim>\<open>tun_alloc\<close> that gets past \<^verbatim>\<open>open\<close> and the read
  of \<^verbatim>\<open>*dev\<close>, the flags submitted with \<^verbatim>\<open>TUNSETIFF\<close> are exactly \<^verbatim>\<open>IFF_TUN\<close>: tunnel
  mode, with the bit \<^verbatim>\<open>IFF_NO_PI\<close> clear.
\<close>

theorem tun_alloc_request_flags:
  assumes "dev \<noteq> []" and "0 \<le> open_ret k"
  shows "map ifr_ifru (tunsetiff_reqs (trace (tun_alloc k dev self_ip peer_ip))) = [Ifru_flags IFF_TUN]
       \<and> IFF_TUN AND IFF_NO_PI = 0"
  using tunsetiff_request [OF assms] by (simp add: IFF_TUN_def IFF_NO_PI_def)

theorem tun_alloc_request_flags_witness:
  "dev_ex \<noteq> [] \<and> 0 \<le> open_ret env_ok
   \<and> map ifr_ifru (tunsetiff_reqs (trace (tun_alloc env_ok dev_ex ''10.0.0.1'' ''10.0.0.2'')))
       = [Ifru_flags 1]"
  using tun_alloc_request_flags [of dev_ex env_ok "''10.0.0.1''" "''10.0.0.2''"]
  by (simp add: env_ok_def dev_ex_def IFF_TUN_def)

text \<open>
  The descriptors closed when a step that holds both handles fails, in the order of the
  calls: the socket first only when \<^verbatim>\<open>SIOCADDRT\<close> fails (lines 126 and 127), the device
  descriptor first when \<^verbatim>\<open>SIOCSIFADDR\<close>, \<^verbatim>\<open>SIOCSIFDSTADDR\<close>, \<^verbatim>\<open>SIOCGIFFLAGS\<close> or
  \<^verbatim>\<open>SIOCSIFFLAGS\<close> fails (lines 81-82, 91-92, 99-100 and 107-108).
\<close>

lemma tun_alloc_close_order:
  assumes "mem_ok k dev" and "0 \<le> open_ret k" and "0 \<le> tunsetiff_ret k"
    and "0 \<le> socket_ret k"
    and "sifaddr_ret k < 0 \<or> sifdstaddr_ret k < 0 \<or> gifflags_ret k < 0
       \<or> sifflags_ret k < 0 \<or> addrt_ret k < 0"
  shows "closes (trace (tun_alloc k dev self_ip peer_ip)) =
           (if 0 \<le> sifaddr_ret k \<and> 0 \<le> sifdstaddr_ret k \<and> 0 \<le> gifflags_ret k
               \<and> 0 \<le> sifflags_ret k
            then [socket_ret k, open_ret k] else [open_ret k, socket_ret k])"
  using assms by (simp add: mem_ok_def tun_alloc_unfold) auto

text \<open>
  Claim C5 asks that a failing step that holds both handles releases them in reverse order
  of acquisition: the socket, acquired second, before the device descriptor, acquired first.
  The path for a failing \<^verbatim>\<open>SIOCADDRT\<close> and the success path release the socket first; the
  four other failing paths do not. When \<^verbatim>\<open>SIOCSIFADDR\<close> fails in the example environment,
  where \<^verbatim>\<open>open\<close> returned 3 and \<^verbatim>\<open>socket\<close> returned 4, the function calls
  \<^verbatim>\<open>close(3)\<close> and then \<^verbatim>\<open>close(4)\<close>; when \<^verbatim>\<open>SIOCADDRT\<close> fails there it calls
  \<^verbatim>\<open>close(4)\<close> and then \<^verbatim>\<open>close(3)\<close>.
\<close>

theorem tun_alloc_closes_device_first:
  "closes (trace (tun_alloc (env_ok\<lparr>sifaddr_ret := - 1\<rparr>) dev_ex ''10.0.0.1'' ''10.0.0.2'')) = [3, 4]
   \<and> open_ret (env_ok\<lparr>sifaddr_ret := - 1\<rparr>) = 3
   \<and> socket_ret (env_ok\<lparr>sifaddr_ret := - 1\<rparr>) = 4
   \<and> closes (trace (tun_alloc (env_ok\<lparr>sifaddr_ret := - 1\<rparr>) dev_ex ''10.0.0.1'' ''10.0.0.2''))
       \<noteq> [socket_ret (env_ok\<lparr>sifaddr_ret := - 1\<rparr>), open_ret (env_ok\<lparr>sifaddr_ret := - 1\<rparr>)]
   \<and> closes (trace (tun_alloc (env_ok\<lparr>addrt_ret := - 1\<rparr>) dev_ex ''10.0.0.1'' ''10.0.0.2'')) = [4, 3]"
proof -
  have a: "closes (trace (tun_alloc (env_ok\<lparr>sifaddr_ret := - 1\<rparr>) dev_ex ''10.0.0.1'' ''10.0.0.2''))
             = [3, 4]"
    using mem_ok_example [of "- 1"] by (simp add: mem_ok_def tun_alloc_unfold env_ok_def)
  have m: "mem_ok (env_ok\<lparr>addrt_ret := - 1\<rparr>) dev_ex"
    by (simp add: mem_ok_def env_ok_def dev_ex_def fits_def NUL_def)
  have b: "closes (trace (tun_alloc (env_ok\<lparr>addrt_ret := - 1\<rparr>) dev_ex ''10.0.0.1'' ''10.0.0.2''))
             = [4, 3]"
    using tun_alloc_close_order [OF m, of "''10.0.0.1''" "''10.0.0.2''"] m
    by (simp add: env_ok_def)
  show ?thesis unfolding a b by (simp add: env_ok_def)
qed

text \<open>
  Claim C6. In every execution of \<^verbatim>\<open>tun_alloc\<close>, defined or not, the kernel operations
  issued are an initial part of the fixed order \<open>step_order\<close>, and none follows an operation
  that returned a negative value. In a defined execution they are exactly the steps up to and
  including the first one whose answer is negative, each issued once.
\<close>

theorem tun_alloc_order:
  "map fst (kernel_ops (trace (tun_alloc k dev self_ip peer_ip)))
     = take (length (kernel_ops (trace (tun_alloc k dev self_ip peer_ip)))) step_order
   \<and> stops_at_failure (map snd (kernel_ops (trace (tun_alloc k dev self_ip peer_ip))))
   \<and> (mem_ok k dev \<longrightarrow>
        kernel_ops (trace (tun_alloc k dev self_ip peer_ip))
          = take (Suc (length (takeWhile (\<lambda>r. 0 \<le> r) (answers k))))
              (zip step_order (answers k)))"
proof (intro conjI impI)
  show "map fst (kernel_ops (trace (tun_alloc k dev self_ip peer_ip)))
     = take (length (kernel_ops (trace (tun_alloc k dev self_ip peer_ip)))) step_order"
    by (simp add: tun_alloc_def Let_def strscpy_pad_zeroed step_order_def split: sum.split)
  show "stops_at_failure (map snd (kernel_ops (trace (tun_alloc k dev self_ip peer_ip))))"
    by (simp add: tun_alloc_def Let_def strscpy_pad_zeroed split: sum.split)
  assume "mem_ok k dev"
  then show "kernel_ops (trace (tun_alloc k dev self_ip peer_ip))
          = take (Suc (length (takeWhile (\<lambda>r. 0 \<le> r) (answers k))))
              (zip step_order (answers k))"
    by (simp add: mem_ok_def tun_alloc_unfold step_order_def answers_def)
qed

theorem tun_alloc_order_witness:
  "mem_ok (env_ok\<lparr>sifaddr_ret := - 1\<rparr>) dev_ex
   \<and> kernel_ops (trace (tun_alloc (env_ok\<lparr>sifaddr_ret := - 1\<rparr>) dev_ex ''10.0.0.1'' ''10.0.0.2''))
       = [(OpOpen, 3), (OpIoctl TUNSETIFF, 0), (OpSocket, 4), (OpIoctl SIOCSIFADDR, - 1)]"
  using tun_alloc_order [of "env_ok\<lparr>sifaddr_ret := - 1\<rparr>" dev_ex "''10.0.0.1''" "''10.0.0.2''"]
    mem_ok_example [of "- 1"]
  by (simp add: env_ok_def answers_def step_order_def)

text \<open>
  Claim C7. In every execution of \<^verbatim>\<open>tun_alloc\<close> in which all steps succeed, the function
  returns the descriptor \<^verbatim>\<open>open\<close> returned, which is not negative; the only descriptor
  closed is the socket, and closing it is the last call made; the device descriptor is
  never closed and is the one handle open at the return. The kernel does not hand out a
  descriptor that is still open, so the socket differs from the device descriptor.
\<close>

theorem tun_alloc_success:
  assumes "mem_ok k dev" and "0 \<le> open_ret k" and "0 \<le> tunsetiff_ret k"
    and "0 \<le> socket_ret k" and "0 \<le> sifaddr_ret k" and "0 \<le> sifdstaddr_ret k"
    and "0 \<le> gifflags_ret k" and "0 \<le> sifflags_ret k" and "0 \<le> addrt_ret k"
    and "socket_ret k \<noteq> open_ret k"
  shows "ret (tun_alloc k dev self_ip peer_ip) = Inr (open_ret k)
       \<and> closes (trace (tun_alloc k dev self_ip peer_ip)) = [socket_ret k]
       \<and> last (trace (tun_alloc k dev self_ip peer_ip)) = Close (socket_ret k)
       \<and> open_ret k \<notin> set (closes (trace (tun_alloc k dev self_ip peer_ip)))
       \<and> open_handles (trace (tun_alloc k dev self_ip peer_ip)) = {open_ret k}"
  using assms
  by (cases "dev ! 0 = NUL") (auto simp add: mem_ok_def tun_alloc_unfold open_handles_def)

theorem tun_alloc_success_witness:
  "mem_ok env_ok dev_ex \<and> socket_ret env_ok \<noteq> open_ret env_ok
   \<and> ret (tun_alloc env_ok dev_ex ''10.0.0.1'' ''10.0.0.2'') = Inr 3
   \<and> closes (trace (tun_alloc env_ok dev_ex ''10.0.0.1'' ''10.0.0.2'')) = [4]
   \<and> last (trace (tun_alloc env_ok dev_ex ''10.0.0.1'' ''10.0.0.2'')) = Close 4
   \<and> open_handles (trace (tun_alloc env_ok dev_ex ''10.0.0.1'' ''10.0.0.2'')) = {3}"
proof -
  have m: "mem_ok env_ok dev_ex"
    using mem_ok_example [of 0] by (simp add: env_ok_def)
  have v: "open_ret env_ok = 3" "socket_ret env_ok = 4" "tunsetiff_ret env_ok = 0"
    "sifaddr_ret env_ok = 0" "sifdstaddr_ret env_ok = 0" "gifflags_ret env_ok = 0"
    "sifflags_ret env_ok = 0" "addrt_ret env_ok = 0"
    by (simp_all add: env_ok_def)
  from tun_alloc_success [OF m, of "''10.0.0.1''" "''10.0.0.2''"] m
  show ?thesis by (simp add: v)
qed

text \<open>
  Claim C8. When \<^verbatim>\<open>open\<close> fails, \<^verbatim>\<open>tun_alloc\<close> returns the constant \<open>-1\<close>, whatever
  negative value \<^verbatim>\<open>open\<close> returned; \<^verbatim>\<open>open\<close> is the only call made, no handle is open, and
  the caller's buffer is untouched.
\<close>

theorem tun_alloc_open_fails:
  assumes "open_ret k < 0"
  shows "tun_alloc k dev self_ip peer_ip =
           \<lparr>ret = Inr (- 1), trace = [Open ''/dev/net/tun'' O_RDWR (open_ret k)], dev_out = dev\<rparr>
       \<and> kernel_ops (trace (tun_alloc k dev self_ip peer_ip)) = [(OpOpen, open_ret k)]
       \<and> closes (trace (tun_alloc k dev self_ip peer_ip)) = []
       \<and> open_handles (trace (tun_alloc k dev self_ip peer_ip)) = {}"
  using assms by (simp add: tun_alloc_def open_handles_def)

theorem tun_alloc_open_fails_witness:
  "open_ret (env_ok\<lparr>open_ret := - 1\<rparr>) < 0
   \<and> tun_alloc (env_ok\<lparr>open_ret := - 1\<rparr>) dev_ex ''10.0.0.1'' ''10.0.0.2'' =
       \<lparr>ret = Inr (- 1), trace = [Open ''/dev/net/tun'' O_RDWR (- 1)], dev_out = dev_ex\<rparr>
   \<and> open_handles (trace (tun_alloc (env_ok\<lparr>open_ret := - 1\<rparr>) dev_ex ''10.0.0.1'' ''10.0.0.2'')) = {}"
  using tun_alloc_open_fails [of "env_ok\<lparr>open_ret := - 1\<rparr>" dev_ex "''10.0.0.1''" "''10.0.0.2''"]
  by (simp add: open_handles_def)

end
